theory Spec2Isabelle
  imports Main "HOL-Library.Multiset"
begin

section \<open>Python values and dictionaries\<close>

text \<open>
  The values a probe stores in an Instance Record are the JSON-serialisable Python values.
  A Python \<^verbatim>\<open>dict\<close> keeps its keys unique and in insertion order, so it is an association
  list; \<open>dict_get\<close> is \<^verbatim>\<open>d.get(k)\<close> and \<open>dict_set\<close> is \<^verbatim>\<open>d[k] = v\<close>, which
  overwrites the value of a key in place and appends a new key at the end.
\<close>

datatype jvalue =
    JNone
  | JBool bool
  | JInt int
  | JStr string
  | JList "jvalue list"
  | JDict "(string \<times> jvalue) list"

type_synonym pydict = "(string \<times> jvalue) list"

fun dict_get :: "('k \<times> 'v) list \<Rightarrow> 'k \<Rightarrow> 'v option" where
  "dict_get [] k = None"
| "dict_get ((k', v') # d) k = (if k' = k then Some v' else dict_get d k)"

fun dict_set :: "('k \<times> 'v) list \<Rightarrow> 'k \<Rightarrow> 'v \<Rightarrow> ('k \<times> 'v) list" where
  "dict_set [] k v = [(k, v)]"
| "dict_set ((k', v') # d) k v =
     (if k' = k then (k', v) # d else (k', v') # dict_set d k v)"

text \<open>\<^verbatim>\<open>k in d\<close>.\<close>

definition dict_has :: "('k \<times> 'v) list \<Rightarrow> 'k \<Rightarrow> bool" where
  "dict_has d k = (dict_get d k \<noteq> None)"

text \<open>\<^verbatim>\<open>d.update(e)\<close>: the shallow key-by-key overwrite.\<close>

fun py_update :: "('k \<times> 'v) list \<Rightarrow> ('k \<times> 'v) list \<Rightarrow> ('k \<times> 'v) list" where
  "py_update d [] = d"
| "py_update d ((k, v) # e) = py_update (dict_set d k v) e"

text \<open>The exceptions the model distinguishes; \<open>ProbeError\<close> is whatever a probe raises.\<close>

datatype error = KeyError string | ProbeError string

section \<open>The Aggregate Store: \<^verbatim>\<open>SearxStatisticsResult\<close>\<close>

record SearxStatisticsResult =
  metadata :: pydict
  instances :: "(string \<times> pydict) list"
  engines :: pydict
  engine_errors :: "jvalue list"
  categories :: "jvalue list"
  hashes :: "jvalue list"
  cidrs :: pydict
  forks :: "jvalue list"
  private_flag :: bool

text \<open>\<^verbatim>\<open>__init__(self, private=False)\<close>; the clock reading is a parameter.\<close>

definition init_result :: "int \<Rightarrow> bool \<Rightarrow> SearxStatisticsResult" where
  "init_result now priv =
     \<lparr> metadata = [(''timestamp'', JInt now), (''ips'', JDict [])],
       instances = [],
       engines = [],
       engine_errors = [],
       categories = [],
       hashes = [],
       cidrs = [],
       forks = [JStr ''https://github.com/searx/searx''],
       private_flag = priv \<rparr>"

text \<open>
  \<^verbatim>\<open>_is_valid_instance(detail)\<close>:
  \<^verbatim>\<open>detail.get('version', None) is not None and 'error' not in detail\<close>.
\<close>

definition is_valid_instance :: "pydict \<Rightarrow> bool" where
  "is_valid_instance detail =
     ((case dict_get detail ''version'' of None \<Rightarrow> JNone | Some v \<Rightarrow> v) \<noteq> JNone
      \<and> \<not> dict_has detail ''error'')"

text \<open>
  The \<^verbatim>\<open>network_type\<close> argument of \<^verbatim>\<open>iter_instances\<close> is one member of the enumeration
  \<^verbatim>\<open>NetworkType\<close>, a collection of members, or (the default) the enumeration class itself.
  The enumeration and the classifier \<^verbatim>\<open>get_network_type\<close> live in \<^verbatim>\<open>common/http.py\<close>;
  the enumeration is the type parameter \<open>'nt\<close> and the classifier is the parameter \<open>gnt\<close>.
\<close>

datatype 'nt network_type_arg =
    Member 'nt
  | Collection "'nt list"
  | EnumClass

text \<open>\<^verbatim>\<open>isinstance(network_type, NetworkType)\<close> and the rebinding to a one-element list.\<close>

fun normalize_network_type :: "'nt network_type_arg \<Rightarrow> 'nt network_type_arg" where
  "normalize_network_type (Member t) = Collection [t]"
| "normalize_network_type a = a"

text \<open>\<^verbatim>\<open>t in network_type\<close>; every member is in the enumeration class.\<close>

fun network_type_in :: "'nt \<Rightarrow> 'nt network_type_arg \<Rightarrow> bool" where
  "network_type_in t (Collection ts) = (t \<in> set ts)"
| "network_type_in t EnumClass = True"
| "network_type_in t (Member t') = (t = t')"

text \<open>The body of the loop of \<^verbatim>\<open>iter_instances\<close>: does the pair get yielded?\<close>

definition yields :: "(string \<Rightarrow> 'nt) \<Rightarrow> bool \<Rightarrow> bool \<Rightarrow> bool \<Rightarrow> 'nt network_type_arg \<Rightarrow>
    string \<times> pydict \<Rightarrow> bool" where
  "yields gnt priv only_valid valid_or_private network_type p =
     (let is_valid = is_valid_instance (snd p) in
      if only_valid \<and> \<not> is_valid then False
      else if valid_or_private \<and> \<not> priv \<and> \<not> is_valid then False
      else if \<not> network_type_in (gnt (fst p)) network_type then False
      else True)"

text \<open>
  \<^verbatim>\<open>iter_instances(self, only_valid=False, valid_or_private=True, network_type=NetworkType)\<close>:
  the generator, as the list of the pairs it yields, in the order of \<^verbatim>\<open>self.instances.items()\<close>.
\<close>

definition iter_instances :: "(string \<Rightarrow> 'nt) \<Rightarrow> SearxStatisticsResult \<Rightarrow> bool \<Rightarrow> bool \<Rightarrow>
    'nt network_type_arg \<Rightarrow> (string \<times> pydict) list" where
  "iter_instances gnt self only_valid valid_or_private network_type =
     filter (yields gnt (private_flag self) only_valid valid_or_private
               (normalize_network_type network_type))
       (instances self)"

text \<open>\<^verbatim>\<open>get_instance(self, url)\<close>: \<^verbatim>\<open>self.instances[url]\<close> raises \<^verbatim>\<open>KeyError\<close> on a missing key.
  The store is returned beside the result: the method writes nothing.\<close>

definition get_instance :: "SearxStatisticsResult \<Rightarrow> string \<Rightarrow>
    (error + pydict) \<times> SearxStatisticsResult" where
  "get_instance self url =
     (case dict_get (instances self) url of
        None \<Rightarrow> (Inl (KeyError url), self)
      | Some detail \<Rightarrow> (Inr detail, self))"

definition create_instance :: "SearxStatisticsResult \<Rightarrow> string \<Rightarrow> pydict \<Rightarrow> SearxStatisticsResult" where
  "create_instance self url detail =
     self\<lparr> instances := dict_set (instances self) url detail \<rparr>"

definition update_instance :: "SearxStatisticsResult \<Rightarrow> string \<Rightarrow> pydict \<Rightarrow> SearxStatisticsResult" where
  "update_instance self url detail =
     (case dict_get (instances self) url of
        Some old \<Rightarrow> self\<lparr> instances := dict_set (instances self) url (py_update old detail) \<rparr>
      | None \<Rightarrow> self\<lparr> instances := dict_set (instances self) url detail \<rparr>)"



section \<open>Outcomes of calls\<close>

text \<open>
  A call that mutates its argument either returns, leaving the argument in a new state, or
  raises, leaving it in the state reached when the exception was thrown. \<open>Logged\<close> is the
  third way a call can end: an exception was caught and printed, and the call returned.
\<close>

datatype 'a outcome = Returned 'a | Raised error 'a | Logged error 'a

fun raises :: "'a outcome \<Rightarrow> bool" where
  "raises (Raised e x) = True"
| "raises r = False"

section \<open>The deep merge \<^verbatim>\<open>dict_update\<close>\<close>

text \<open>
  Modelled from the spec: \<^verbatim>\<open>dict_update\<close> of \<^verbatim>\<open>common/utils.py\<close>, which is not among the
  sources. The spec: \<^emph>\<open>merges value into targetRecord at nested keyPath\<close>;
  \<^emph>\<open>existing subtrees are merged key-by-key rather than replaced wholesale; leaf values at
  the target path are overwritten\<close>. \<open>merge_value old new\<close> is the value a key holds after
  \<open>new\<close> is merged over \<open>old\<close>: two dictionaries are merged key by key, anything else is
  overwritten by \<open>new\<close>.
\<close>

fun merge_value :: "jvalue \<Rightarrow> jvalue \<Rightarrow> jvalue"
  and merge_items :: "pydict \<Rightarrow> pydict \<Rightarrow> pydict" where
  "merge_value old (JDict new) =
     (case old of JDict d \<Rightarrow> JDict (merge_items d new) | _ \<Rightarrow> JDict new)"
| "merge_value old JNone = JNone"
| "merge_value old (JBool b) = JBool b"
| "merge_value old (JInt i) = JInt i"
| "merge_value old (JStr s) = JStr s"
| "merge_value old (JList vs) = JList vs"
| "merge_items d [] = d"
| "merge_items d ((k, v) # new) =
     merge_items (dict_set d k (case dict_get d k of None \<Rightarrow> v | Some old \<Rightarrow> merge_value old v)) new"

text \<open>
  Modelled from the spec: \<^verbatim>\<open>dict_update(dictionary, keys, value)\<close>, as above. The path
  \<open>keys\<close> is walked from the record down; a key of the path that is absent, or bound to a
  leaf, gets a fresh dictionary; at the last key \<open>value\<close> is merged over what is there.
  An empty path names no place in the record, and nothing is written.
\<close>

fun dict_update :: "pydict \<Rightarrow> string list \<Rightarrow> jvalue \<Rightarrow> pydict" where
  "dict_update d [] v = d"
| "dict_update d [k] v =
     dict_set d k (case dict_get d k of None \<Rightarrow> v | Some old \<Rightarrow> merge_value old v)"
| "dict_update d (k # k' # ks) v =
     dict_set d k
       (JDict (dict_update (case dict_get d k of Some (JDict sub) \<Rightarrow> sub | _ \<Rightarrow> []) (k' # ks) v))"


section \<open>The Bounded Concurrency Driver \<^verbatim>\<open>for_each\<close>\<close>

text \<open>
  Modelled from the spec: \<^verbatim>\<open>for_each(iterator, coroutine, limit=...)\<close> of
  \<^verbatim>\<open>common/foreach.py\<close>, which is not among the sources. The spec: \<^emph>\<open>limit caps
  simultaneous in-flight invocations of operation\<close>; the driver \<^emph>\<open>pulls elements from
  sequence lazily and starts a new invocation each time an in-flight slot frees up, until the
  sequence is exhausted and all in-flight invocations complete\<close>; a failure of one
  invocation \<^emph>\<open>is captured and does not propagate to sibling invocations or halt
  consumption of the remaining sequence\<close>; no order of completion is promised.

  The driver is a transition system. Its state holds the part of the sequence not yet
  pulled, the invocations in flight, and the invocations that have ended, each with its
  outcome, a failure included. \<open>Start\<close> pulls the next element and starts its invocation,
  and is enabled only while fewer than \<open>limit\<close> invocations are in flight; \<open>Finish i\<close> ends
  the \<open>i\<close>-th invocation in flight. The cooperative scheduler chooses among the enabled
  events, so a run is driven by a list of events, and is \<open>None\<close> when an event of the list
  is not enabled.
\<close>

record ('a, 'r) for_each_state =
  waiting :: "'a list"
  in_flight :: "'a list"
  finished :: "('a \<times> 'r) list"

datatype event = Start | Finish nat

definition for_each_start :: "'a list \<Rightarrow> ('a, 'r) for_each_state" where
  "for_each_start iterator = \<lparr> waiting = iterator, in_flight = [], finished = [] \<rparr>"

fun for_each_step :: "nat \<Rightarrow> ('a \<Rightarrow> 'r) \<Rightarrow> event \<Rightarrow> ('a, 'r) for_each_state \<Rightarrow>
    ('a, 'r) for_each_state option" where
  "for_each_step limit coroutine Start s =
     (case waiting s of
        [] \<Rightarrow> None
      | x # xs \<Rightarrow>
          if length (in_flight s) < limit
          then Some (s\<lparr> waiting := xs, in_flight := in_flight s @ [x] \<rparr>)
          else None)"
| "for_each_step limit coroutine (Finish i) s =
     (if i < length (in_flight s)
      then Some (s\<lparr> in_flight := take i (in_flight s) @ drop (Suc i) (in_flight s),
                    finished := finished s @ [(in_flight s ! i, coroutine (in_flight s ! i))] \<rparr>)
      else None)"

fun for_each_run :: "nat \<Rightarrow> ('a \<Rightarrow> 'r) \<Rightarrow> event list \<Rightarrow> ('a, 'r) for_each_state \<Rightarrow>
    ('a, 'r) for_each_state option" where
  "for_each_run limit coroutine [] s = Some s"
| "for_each_run limit coroutine (e # es) s =
     (case for_each_step limit coroutine e s of
        None \<Rightarrow> None
      | Some s' \<Rightarrow> for_each_run limit coroutine es s')"

definition for_each :: "'a list \<Rightarrow> ('a \<Rightarrow> 'r) \<Rightarrow> nat \<Rightarrow> event list \<Rightarrow>
    ('a, 'r) for_each_state option" where
  "for_each iterator coroutine limit schedule =
     for_each_run limit coroutine schedule (for_each_start iterator)"

text \<open>The pass is complete: the sequence is exhausted and nothing is in flight.\<close>

definition completed :: "('a, 'r) for_each_state \<Rightarrow> bool" where
  "completed s = (waiting s = [] \<and> in_flight s = [])"

section \<open>The Fetch-and-Merge Factory \<^verbatim>\<open>create_fetch\<close>\<close>

text \<open>
  \<^verbatim>\<open>fetch_one\<close> is a coroutine function or a plain function
  (\<^verbatim>\<open>inspect.iscoroutinefunction\<close>); called on a URL it returns a fragment or raises.
\<close>

datatype 'f callable = CoroutineFunction 'f | PlainFunction 'f

fun iscoroutinefunction :: "'f callable \<Rightarrow> bool" where
  "iscoroutinefunction (CoroutineFunction f) = True"
| "iscoroutinefunction (PlainFunction f) = False"

fun call :: "'f callable \<Rightarrow> 'f" where
  "call (CoroutineFunction f) = f"
| "call (PlainFunction f) = f"

type_synonym fetch_one = "(string \<Rightarrow> error + jvalue) callable"

text \<open>\<^verbatim>\<open>fetch_and_set_async(url, detail)\<close>: \<^verbatim>\<open>result = await fetch_one(url)\<close>, then
  \<^verbatim>\<open>dict_update(detail, keys, result)\<close>.\<close>

definition fetch_and_set_async :: "string list \<Rightarrow> fetch_one \<Rightarrow> string \<Rightarrow> pydict \<Rightarrow> pydict outcome" where
  "fetch_and_set_async keys fetch_one url detail =
     (case call fetch_one url of
        Inl e \<Rightarrow> Raised e detail
      | Inr result \<Rightarrow> Returned (dict_update detail keys result))"

text \<open>\<^verbatim>\<open>fetch_and_set_function(url, detail)\<close>: the same without the \<^verbatim>\<open>await\<close>.\<close>

definition fetch_and_set_function :: "string list \<Rightarrow> fetch_one \<Rightarrow> string \<Rightarrow> pydict \<Rightarrow> pydict outcome" where
  "fetch_and_set_function keys fetch_one url detail =
     (case call fetch_one url of
        Inl e \<Rightarrow> Raised e detail
      | Inr result \<Rightarrow> Returned (dict_update detail keys result))"

text \<open>
  \<^verbatim>\<open>fetch(searx_stats_result)\<close>, the closure \<^verbatim>\<open>create_fetch\<close> returns, with the arguments of
  \<^verbatim>\<open>create_fetch\<close> before its own; \<^verbatim>\<open>for_each\<close> calls the coroutine on the unpacked pair.
\<close>

definition fetch :: "(string \<Rightarrow> 'nt) \<Rightarrow> string list \<Rightarrow> fetch_one \<Rightarrow> bool \<Rightarrow> bool \<Rightarrow>
    'nt network_type_arg \<Rightarrow> nat \<Rightarrow> SearxStatisticsResult \<Rightarrow> event list \<Rightarrow>
    (string \<times> pydict, pydict outcome) for_each_state option" where
  "fetch gnt keys fetch_one only_valid valid_or_private network_type limit searx_stats_result schedule =
     (let fetch_and_set =
            (if iscoroutinefunction fetch_one
             then fetch_and_set_async keys fetch_one
             else fetch_and_set_function keys fetch_one);
          instance_iterator =
            iter_instances gnt searx_stats_result only_valid valid_or_private network_type
      in for_each instance_iterator (\<lambda>(url, detail). fetch_and_set url detail) limit schedule)"

section \<open>The Probe Adapter \<^verbatim>\<open>Fetcher\<close>\<close>

text \<open>
  A probe module is a namespace. What it binds to \<^verbatim>\<open>fetch\<close> and to \<^verbatim>\<open>initialize\<close> is
  absent, a function, or some other object; \<^verbatim>\<open>fetch\<close> is called on the store, which it
  mutates, and \<^verbatim>\<open>initialize\<close> on nothing.
\<close>

datatype 'f attribute = Function 'f | NotFunction

record probe_module =
  name_of_module :: string
  attr_fetch :: "(SearxStatisticsResult \<Rightarrow> SearxStatisticsResult outcome) attribute option"
  attr_initialize :: "(unit \<Rightarrow> unit outcome) attribute option"

record Fetcher =
  fetch_module :: probe_module
  name :: string
  help_message :: string
  group_name :: "string option"
  mandatory :: bool

text \<open>
  \<^verbatim>\<open>get_function(self, name)\<close>, on what \<^verbatim>\<open>hasattr\<close> and \<^verbatim>\<open>getattr\<close> find under the name:
  the function, or \<^verbatim>\<open>None\<close> when there is no such attribute or \<^verbatim>\<open>inspect.isfunction\<close>
  refuses it.
\<close>

definition get_function :: "'f attribute option \<Rightarrow> 'f option" where
  "get_function attr =
     (case attr of
        Some (Function function) \<Rightarrow> Some function
      | Some NotFunction \<Rightarrow> None
      | None \<Rightarrow> None)"

text \<open>
  Modelled from the spec: \<^verbatim>\<open>create_task(loop, executor, callable, *args)\<close> of
  \<^verbatim>\<open>common/utils.py\<close>, which is not among the sources: \<^emph>\<open>a unit of concurrent work that
  runs\<close> the callable on the arguments. \<open>run_task\<close> is what happens when the scheduler
  runs the unit.
\<close>

datatype 'a task = Task "'a \<Rightarrow> 'a outcome" 'a

definition create_task :: "('a \<Rightarrow> 'a outcome) \<Rightarrow> 'a \<Rightarrow> 'a task" where
  "create_task callable arg = Task callable arg"

fun run_task :: "'a task \<Rightarrow> 'a outcome" where
  "run_task (Task callable arg) = callable arg"

text \<open>
  Modelled from the spec: \<^verbatim>\<open>print_exception_wrapper(func)\<close> of \<^verbatim>\<open>common/utils.py\<close>, which
  is not among the sources: it \<^emph>\<open>decorates a task body to catch-log-and-swallow exceptions,
  converting them to a non-fatal logged event\<close>. The spec speaks of a task body; what
  the wrapper does when it is given \<^verbatim>\<open>None\<close> in place of one is not said, and is the
  parameter \<open>around_none\<close>.
\<close>

definition print_exception_wrapper :: "('a \<Rightarrow> 'a outcome) \<Rightarrow> ('a \<Rightarrow> 'a outcome) option \<Rightarrow>
    'a \<Rightarrow> 'a outcome" where
  "print_exception_wrapper around_none func arg =
     (case func of
        None \<Rightarrow> around_none arg
      | Some f \<Rightarrow>
          (case f arg of
             Raised e x \<Rightarrow> Logged e x
           | Returned x \<Rightarrow> Returned x
           | Logged e x \<Rightarrow> Logged e x))"

text \<open>\<^verbatim>\<open>create_fetch_task(self, loop, executor, searx_stats_result)\<close>, with the parameter of
  the wrapper before its own.\<close>

definition create_fetch_task :: "(SearxStatisticsResult \<Rightarrow> SearxStatisticsResult outcome) \<Rightarrow>
    Fetcher \<Rightarrow> SearxStatisticsResult \<Rightarrow> SearxStatisticsResult task" where
  "create_fetch_task around_none self searx_stats_result =
     (let fetch = get_function (attr_fetch (fetch_module self));
          safe_fetch = print_exception_wrapper around_none fetch
      in create_task safe_fetch searx_stats_result)"

text \<open>The coroutine of \<^verbatim>\<open>async def dummy(): pass\<close>.\<close>

definition dummy :: "unit task" where
  "dummy = Task (\<lambda>u. Returned u) ()"

text \<open>\<^verbatim>\<open>create_initialize_task(self, loop, executor)\<close>.\<close>

definition create_initialize_task :: "Fetcher \<Rightarrow> unit task" where
  "create_initialize_task self =
     (let initialize = get_function (attr_initialize (fetch_module self))
      in case initialize of
           Some f \<Rightarrow> create_task f ()
         | None \<Rightarrow> dummy)"

section \<open>Properties of the Aggregate Store\<close>

lemma yields_only_valid:
  "yields gnt priv True vop nt p \<Longrightarrow> is_valid_instance (snd p)"
  by (simp add: yields_def Let_def split: if_splits)

lemma is_valid_instanceD:
  "is_valid_instance d \<Longrightarrow> (\<exists>v. dict_get d ''version'' = Some v \<and> v \<noteq> JNone) \<and> dict_get d ''error'' = None"
  by (auto simp: is_valid_instance_def dict_has_def split: option.splits)

text \<open>
  C3. Over the store \<open>{u1: {version: "1.0"}, u2: {error: "timeout"}, u3: {}}\<close>,
  \<^verbatim>\<open>iter_instances(only_valid=True)\<close> yields exactly the pair of \<open>u1\<close>; and whatever the
  store and the other arguments, every record yielded with \<open>only_valid\<close> set has a
  \<^verbatim>\<open>version\<close> that is not \<^verbatim>\<open>None\<close> and no \<^verbatim>\<open>error\<close> key.
\<close>

theorem iter_instances_only_valid:
  "iter_instances gnt
      (st\<lparr> instances := [(ua, [(''version'', JStr ''1.0'')]),
                         (ub, [(''error'', JStr ''timeout'')]),
                         (uc, [])] \<rparr>)
      True vop EnumClass
    = [(ua, [(''version'', JStr ''1.0'')])]
   \<and> (\<forall>p \<in> set (iter_instances gnt s True vop' nt).
        (\<exists>v. dict_get (snd p) ''version'' = Some v \<and> v \<noteq> JNone)
        \<and> dict_get (snd p) ''error'' = None)"
proof
  show "iter_instances gnt
      (st\<lparr> instances := [(ua, [(''version'', JStr ''1.0'')]),
                         (ub, [(''error'', JStr ''timeout'')]),
                         (uc, [])] \<rparr>)
      True vop EnumClass
    = [(ua, [(''version'', JStr ''1.0'')])]"
    by (simp add: iter_instances_def yields_def is_valid_instance_def dict_has_def)
next
  show "\<forall>p \<in> set (iter_instances gnt s True vop' nt).
        (\<exists>v. dict_get (snd p) ''version'' = Some v \<and> v \<noteq> JNone)
        \<and> dict_get (snd p) ''error'' = None"
  proof
    fix p
    assume "p \<in> set (iter_instances gnt s True vop' nt)"
    then have "is_valid_instance (snd p)"
      by (auto simp: iter_instances_def dest: yields_only_valid)
    then show "(\<exists>v. dict_get (snd p) ''version'' = Some v \<and> v \<noteq> JNone)
        \<and> dict_get (snd p) ''error'' = None"
      by (rule is_valid_instanceD)
  qed
qed

theorem iter_instances_only_valid_witness:
  "(''u1'', [(''version'', JStr ''1.0'')])
     \<in> set (iter_instances (\<lambda>u. True)
              (init_result 0 False\<lparr> instances := [(''u1'', [(''version'', JStr ''1.0'')]),
                                                  (''u2'', [(''error'', JStr ''timeout'')]),
                                                  (''u3'', [])] \<rparr>)
              True True EnumClass)
   \<and> (\<exists>v. dict_get [(''version'', JStr ''1.0'')] ''version'' = Some v \<and> v \<noteq> JNone)
   \<and> dict_get [(''version'', JStr ''1.0'')] ''error'' = None"
  using iter_instances_only_valid
    [where gnt = "\<lambda>u. True" and vop' = True and nt = EnumClass and
        s = "init_result 0 False\<lparr> instances := [(''u1'', [(''version'', JStr ''1.0'')]),
                                                  (''u2'', [(''error'', JStr ''timeout'')]),
                                                  (''u3'', [])] \<rparr>"]
  by simp

lemma yields_private:
  "yields gnt True False True nt = yields gnt True False False nt"
  by (rule ext) (simp add: yields_def)

text \<open>
  C4. Over a store \<open>{u1: valid, u2: invalid, u3: pending}\<close>,
  \<^verbatim>\<open>iter_instances(only_valid=False, valid_or_private=True)\<close> yields only \<open>u1\<close> when
  the store is not private, and \<open>u1, u2, u3\<close> in insertion order when it is; on a
  private store the \<open>valid_or_private\<close> filter has no effect at all.
\<close>

theorem iter_instances_valid_or_private:
  "(is_valid_instance da \<and> dict_has db ''error''
      \<and> dict_get dc ''version'' = None \<and> \<not> dict_has dc ''error'' \<longrightarrow>
      iter_instances gnt (st\<lparr> instances := [(ua, da), (ub, db), (uc, dc)], private_flag := False \<rparr>)
        False True EnumClass = [(ua, da)]
      \<and> iter_instances gnt (st\<lparr> instances := [(ua, da), (ub, db), (uc, dc)], private_flag := True \<rparr>)
          False True EnumClass = [(ua, da), (ub, db), (uc, dc)])
   \<and> (private_flag s \<longrightarrow>
        iter_instances gnt s False True nt = iter_instances gnt s False False nt)"
proof (intro conjI impI)
  assume h: "is_valid_instance da \<and> dict_has db ''error''
      \<and> dict_get dc ''version'' = None \<and> \<not> dict_has dc ''error''"
  then have v: "is_valid_instance da" "\<not> is_valid_instance db" "\<not> is_valid_instance dc"
    by (simp_all add: is_valid_instance_def)
  show "iter_instances gnt (st\<lparr> instances := [(ua, da), (ub, db), (uc, dc)], private_flag := False \<rparr>)
        False True EnumClass = [(ua, da)]"
    using v by (simp add: iter_instances_def yields_def)
  show "iter_instances gnt (st\<lparr> instances := [(ua, da), (ub, db), (uc, dc)], private_flag := True \<rparr>)
          False True EnumClass = [(ua, da), (ub, db), (uc, dc)]"
    by (simp add: iter_instances_def yields_def)
next
  assume "private_flag s"
  then show "iter_instances gnt s False True nt = iter_instances gnt s False False nt"
    by (simp add: iter_instances_def yields_private)
qed

theorem iter_instances_valid_or_private_witness:
  "is_valid_instance [(''version'', JStr ''1.0'')] \<and> dict_has [(''error'', JStr ''timeout'')] ''error''
   \<and> dict_get [] ''version'' = (None :: jvalue option) \<and> \<not> dict_has ([] :: pydict) ''error''
   \<and> iter_instances (\<lambda>u. True)
        (init_result 0 False\<lparr> instances := [(''u1'', [(''version'', JStr ''1.0'')]),
            (''u2'', [(''error'', JStr ''timeout'')]), (''u3'', [])], private_flag := False \<rparr>)
        False True EnumClass = [(''u1'', [(''version'', JStr ''1.0'')])]
   \<and> iter_instances (\<lambda>u. True)
        (init_result 0 False\<lparr> instances := [(''u1'', [(''version'', JStr ''1.0'')]),
            (''u2'', [(''error'', JStr ''timeout'')]), (''u3'', [])], private_flag := True \<rparr>)
        False True EnumClass
       = [(''u1'', [(''version'', JStr ''1.0'')]), (''u2'', [(''error'', JStr ''timeout'')]), (''u3'', [])]
   \<and> private_flag (init_result 0 True\<lparr> instances := [(''u2'', [(''error'', JStr ''timeout'')])] \<rparr>)
   \<and> iter_instances (\<lambda>u. True)
        (init_result 0 True\<lparr> instances := [(''u2'', [(''error'', JStr ''timeout'')])] \<rparr>)
        False True EnumClass
      = iter_instances (\<lambda>u. True)
        (init_result 0 True\<lparr> instances := [(''u2'', [(''error'', JStr ''timeout'')])] \<rparr>)
        False False EnumClass"
  using iter_instances_valid_or_private
    [where gnt = "\<lambda>u. True" and nt = EnumClass and st = "init_result 0 False"
       and ua = "''u1''" and ub = "''u2''" and uc = "''u3''"
       and da = "[(''version'', JStr ''1.0'')]" and db = "[(''error'', JStr ''timeout'')]"
       and dc = "[]"
       and s = "init_result 0 True\<lparr> instances := [(''u2'', [(''error'', JStr ''timeout'')])] \<rparr>"]
  by (simp add: is_valid_instance_def dict_has_def init_result_def)

text \<open>
  C8. A record whose \<^verbatim>\<open>version\<close> key is bound to \<^verbatim>\<open>None\<close> is not valid:
  \<^verbatim>\<open>iter_instances(only_valid=True)\<close> never yields it, and on a store that is not
  private \<^verbatim>\<open>valid_or_private=True\<close> skips it as well.
\<close>

theorem version_none_not_valid:
  "dict_get d ''version'' = Some JNone \<longrightarrow>
     \<not> is_valid_instance d
     \<and> (u, d) \<notin> set (iter_instances gnt s True vop nt)
     \<and> (\<not> private_flag s \<longrightarrow> (u, d) \<notin> set (iter_instances gnt s ov True nt))"
  by (auto simp: iter_instances_def yields_def Let_def is_valid_instance_def)

theorem version_none_not_valid_witness:
  "dict_get [(''version'', JNone)] ''version'' = Some JNone
   \<and> \<not> is_valid_instance [(''version'', JNone)]
   \<and> iter_instances (\<lambda>u. True) (init_result 0 False\<lparr> instances := [(''u1'', [(''version'', JNone)])] \<rparr>)
        True True EnumClass = []
   \<and> \<not> private_flag (init_result 0 False\<lparr> instances := [(''u1'', [(''version'', JNone)])] \<rparr>)
   \<and> iter_instances (\<lambda>u. True) (init_result 0 False\<lparr> instances := [(''u1'', [(''version'', JNone)])] \<rparr>)
        False True EnumClass = []"
  using version_none_not_valid
    [where d = "[(''version'', JNone)]" and u = "''u1''" and gnt = "\<lambda>u. True" and vop = True
       and ov = False and nt = EnumClass
       and s = "init_result 0 False\<lparr> instances := [(''u1'', [(''version'', JNone)])] \<rparr>"]
  by (simp add: iter_instances_def yields_def is_valid_instance_def init_result_def)

lemma dict_get_None_iff: "dict_get d k = None \<longleftrightarrow> k \<notin> fst ` set d"
  by (induction d) force+

lemma dict_get_Some_mem: "dict_get d k = Some v \<Longrightarrow> (k, v) \<in> set d"
  by (induction d) (auto split: if_splits)





text \<open>
  C6. \<^verbatim>\<open>get_instance\<close> on a URL of the store returns the record stored under it, on any
  other URL it fails with \<^verbatim>\<open>KeyError\<close> (the not-found error of the spec), which is the
  result the caller gets; in both cases the store is left as it was.
\<close>

theorem get_instance_lookup:
  "(url \<in> fst ` set (instances s) \<longrightarrow>
      (\<exists>detail. (url, detail) \<in> set (instances s) \<and> dict_get (instances s) url = Some detail
         \<and> get_instance s url = (Inr detail, s)))
   \<and> (url \<notin> fst ` set (instances s) \<longrightarrow> get_instance s url = (Inl (KeyError url), s))"
proof (intro conjI impI)
  assume "url \<in> fst ` set (instances s)"
  then obtain detail where d: "dict_get (instances s) url = Some detail"
    using dict_get_None_iff [of "instances s" url] by auto
  then have "(url, detail) \<in> set (instances s)"
    by (rule dict_get_Some_mem)
  with d show "\<exists>detail. (url, detail) \<in> set (instances s) \<and> dict_get (instances s) url = Some detail
         \<and> get_instance s url = (Inr detail, s)"
    by (simp add: get_instance_def)
next
  assume "url \<notin> fst ` set (instances s)"
  then have "dict_get (instances s) url = None"
    by (simp add: dict_get_None_iff)
  then show "get_instance s url = (Inl (KeyError url), s)"
    by (simp add: get_instance_def)
qed

theorem get_instance_lookup_witness:
  "''u1'' \<in> fst ` set (instances (create_instance (init_result 0 False) ''u1'' [(''version'', JStr ''1.0'')]))
   \<and> get_instance (create_instance (init_result 0 False) ''u1'' [(''version'', JStr ''1.0'')]) ''u1''
       = (Inr [(''version'', JStr ''1.0'')],
          create_instance (init_result 0 False) ''u1'' [(''version'', JStr ''1.0'')])
   \<and> ''u2'' \<notin> fst ` set (instances (create_instance (init_result 0 False) ''u1'' [(''version'', JStr ''1.0'')]))
   \<and> get_instance (create_instance (init_result 0 False) ''u1'' [(''version'', JStr ''1.0'')]) ''u2''
       = (Inl (KeyError ''u2''),
          create_instance (init_result 0 False) ''u1'' [(''version'', JStr ''1.0'')])"
  using get_instance_lookup
      [where url = "''u1''" and s = "create_instance (init_result 0 False) ''u1'' [(''version'', JStr ''1.0'')]"]
    get_instance_lookup
      [where url = "''u2''" and s = "create_instance (init_result 0 False) ''u1'' [(''version'', JStr ''1.0'')]"]
  by (simp add: create_instance_def init_result_def)


section \<open>Properties of the Probe Adapter\<close>

lemma get_function_None_iff:
  "get_function a = None \<longleftrightarrow> a = None \<or> a = Some NotFunction"
  by (simp add: get_function_def split: option.splits attribute.splits)

text \<open>
  C9. \<^verbatim>\<open>create_fetch_task\<close> wraps whatever \<^verbatim>\<open>get_function('fetch')\<close> returns and makes
  it the task body: when the module has no \<^verbatim>\<open>fetch\<close> function, the body is the wrapper
  around \<^verbatim>\<open>None\<close>, nothing is put in its place, and running the task does what the
  wrapper does around \<^verbatim>\<open>None\<close>. \<^verbatim>\<open>create_initialize_task\<close>, when the module has no
  \<^verbatim>\<open>initialize\<close> function, returns the coroutine that does nothing.
\<close>

theorem create_fetch_task_no_fallback:
  "create_fetch_task wn F s
     = create_task (print_exception_wrapper wn (get_function (attr_fetch (fetch_module F)))) s
   \<and> (attr_fetch (fetch_module F) = None \<or> attr_fetch (fetch_module F) = Some NotFunction \<longrightarrow>
        get_function (attr_fetch (fetch_module F)) = None
        \<and> create_fetch_task wn F s = create_task (print_exception_wrapper wn None) s
        \<and> run_task (create_fetch_task wn F s) = wn s)
   \<and> (attr_initialize (fetch_module F) = None \<or> attr_initialize (fetch_module F) = Some NotFunction \<longrightarrow>
        get_function (attr_initialize (fetch_module F)) = None
        \<and> create_initialize_task F = dummy
        \<and> run_task (create_initialize_task F) = Returned ())"
  by (auto simp: create_fetch_task_def create_initialize_task_def get_function_def dummy_def
      create_task_def print_exception_wrapper_def)

theorem create_fetch_task_no_fallback_witness:
  "attr_fetch (fetch_module
      \<lparr> fetch_module = \<lparr> name_of_module = ''searxstats.fetcher.basic'', attr_fetch = None,
                         attr_initialize = Some NotFunction \<rparr>,
        name = ''basic'', help_message = ''Basic checks'', group_name = None, mandatory = True \<rparr>) = None
   \<and> create_fetch_task (\<lambda>r. Raised (ProbeError ''not callable'') r)
      \<lparr> fetch_module = \<lparr> name_of_module = ''searxstats.fetcher.basic'', attr_fetch = None,
                         attr_initialize = Some NotFunction \<rparr>,
        name = ''basic'', help_message = ''Basic checks'', group_name = None, mandatory = True \<rparr>
      (init_result 0 False)
     = create_task (print_exception_wrapper (\<lambda>r. Raised (ProbeError ''not callable'') r) None)
         (init_result 0 False)
   \<and> attr_initialize (fetch_module
      \<lparr> fetch_module = \<lparr> name_of_module = ''searxstats.fetcher.basic'', attr_fetch = None,
                         attr_initialize = Some NotFunction \<rparr>,
        name = ''basic'', help_message = ''Basic checks'', group_name = None, mandatory = True \<rparr>)
      = Some NotFunction
   \<and> create_initialize_task
      \<lparr> fetch_module = \<lparr> name_of_module = ''searxstats.fetcher.basic'', attr_fetch = None,
                         attr_initialize = Some NotFunction \<rparr>,
        name = ''basic'', help_message = ''Basic checks'', group_name = None, mandatory = True \<rparr>
     = dummy"
  using create_fetch_task_no_fallback
    [where s = "init_result 0 False" and wn = "\<lambda>r. Raised (ProbeError ''not callable'') r" and F =
      "\<lparr> fetch_module = \<lparr> name_of_module = ''searxstats.fetcher.basic'', attr_fetch = None,
                         attr_initialize = Some NotFunction \<rparr>,
        name = ''basic'', help_message = ''Basic checks'', group_name = None, mandatory = True \<rparr>"]
  by simp

text \<open>
  C2. For every probe module with a \<^verbatim>\<open>fetch\<close> function and every store, running the
  task of \<^verbatim>\<open>create_fetch_task\<close> never ends in a raised exception: where \<^verbatim>\<open>fetch\<close>
  returns, the task returns with the store as \<^verbatim>\<open>fetch\<close> left it, and where \<^verbatim>\<open>fetch\<close>
  raises, the exception is logged and the task returns, with the store as it was when the
  exception was thrown.
\<close>

theorem create_fetch_task_never_raises:
  "get_function (attr_fetch (fetch_module F)) = Some f \<longrightarrow>
     \<not> raises (run_task (create_fetch_task wn F s))
     \<and> (f s = Returned s' \<longrightarrow> run_task (create_fetch_task wn F s) = Returned s')
     \<and> (f s = Raised e s' \<longrightarrow> run_task (create_fetch_task wn F s) = Logged e s')"
  by (auto simp: create_fetch_task_def create_task_def print_exception_wrapper_def
      split: option.splits outcome.splits)

theorem create_fetch_task_never_raises_witness:
  "get_function (attr_fetch (fetch_module
      \<lparr> fetch_module = \<lparr> name_of_module = ''searxstats.fetcher.basic'',
                         attr_fetch = Some (Function (\<lambda>r. Raised (ProbeError ''boom'') (r\<lparr> hashes := [JInt 1] \<rparr>))),
                         attr_initialize = None \<rparr>,
        name = ''basic'', help_message = ''Basic checks'', group_name = None, mandatory = True \<rparr>))
     = Some (\<lambda>r. Raised (ProbeError ''boom'') (r\<lparr> hashes := [JInt 1] \<rparr>))
   \<and> run_task (create_fetch_task (\<lambda>r. Returned r)
      \<lparr> fetch_module = \<lparr> name_of_module = ''searxstats.fetcher.basic'',
                         attr_fetch = Some (Function (\<lambda>r. Raised (ProbeError ''boom'') (r\<lparr> hashes := [JInt 1] \<rparr>))),
                         attr_initialize = None \<rparr>,
        name = ''basic'', help_message = ''Basic checks'', group_name = None, mandatory = True \<rparr>
      (init_result 0 False))
     = Logged (ProbeError ''boom'') (init_result 0 False\<lparr> hashes := [JInt 1] \<rparr>)"
  using create_fetch_task_never_raises
    [where s = "init_result 0 False" and e = "ProbeError ''boom''" and wn = "\<lambda>r. Returned r"
       and s' = "init_result 0 False\<lparr> hashes := [JInt 1] \<rparr>"
       and f = "\<lambda>r. Raised (ProbeError ''boom'') (r\<lparr> hashes := [JInt 1] \<rparr>)"
       and F =
      "\<lparr> fetch_module = \<lparr> name_of_module = ''searxstats.fetcher.basic'',
                         attr_fetch = Some (Function (\<lambda>r. Raised (ProbeError ''boom'') (r\<lparr> hashes := [JInt 1] \<rparr>))),
                         attr_initialize = None \<rparr>,
        name = ''basic'', help_message = ''Basic checks'', group_name = None, mandatory = True \<rparr>"]
  by (simp add: get_function_def)

section \<open>Properties of the deep merge\<close>














section \<open>Properties of the fetch pass\<close>

text \<open>What a pass conserves: the elements, each in one of three stages.\<close>

lemma mset_remove_nth:
  "i < length xs \<Longrightarrow> mset (take i xs @ drop (Suc i) xs) + {#xs ! i#} = mset xs"
proof -
  assume "i < length xs"
  then have "xs = take i xs @ xs ! i # drop (Suc i) xs"
    by (rule id_take_nth_drop)
  then have "mset xs = mset (take i xs @ xs ! i # drop (Suc i) xs)"
    by simp
  then show ?thesis by simp
qed

lemma for_each_step_in_flight:
  "for_each_step limit c e s = Some s' \<Longrightarrow> length (in_flight s) \<le> limit \<Longrightarrow>
     length (in_flight s') \<le> limit"
  by (cases e) (auto split: list.splits if_splits)

lemma for_each_step_elements:
  "for_each_step limit c e s = Some s' \<Longrightarrow>
     mset (waiting s') + mset (in_flight s') + mset (map fst (finished s'))
       = mset (waiting s) + mset (in_flight s) + mset (map fst (finished s))"
proof (cases e)
  case Start
  assume "for_each_step limit c e s = Some s'"
  with Start show ?thesis by (auto split: list.splits if_splits)
next
  case (Finish i)
  assume "for_each_step limit c e s = Some s'"
  with Finish have i: "i < length (in_flight s)"
    and s': "s' = s\<lparr> in_flight := take i (in_flight s) @ drop (Suc i) (in_flight s),
                      finished := finished s @ [(in_flight s ! i, c (in_flight s ! i))] \<rparr>"
    by (auto split: if_splits)
  from mset_remove_nth [OF i] s' show ?thesis
    by (simp add: algebra_simps)
qed

lemma for_each_step_measure:
  "for_each_step limit c e s = Some s' \<Longrightarrow>
     Suc (2 * length (waiting s') + length (in_flight s'))
       = 2 * length (waiting s) + length (in_flight s)"
  by (cases e) (auto split: list.splits if_splits)

lemma for_each_step_outcomes:
  "for_each_step limit c e s = Some s' \<Longrightarrow> \<forall>xr \<in> set (finished s). snd xr = c (fst xr) \<Longrightarrow>
     \<forall>xr \<in> set (finished s'). snd xr = c (fst xr)"
  by (cases e) (auto split: list.splits if_splits)

lemma for_each_progress:
  "0 < limit \<Longrightarrow> \<not> completed s \<Longrightarrow> \<exists>e s'. for_each_step limit c e s = Some s'"
proof (cases "in_flight s")
  case Nil
  assume "0 < limit" "\<not> completed s"
  with Nil obtain x xs where "waiting s = x # xs"
    by (auto simp: completed_def neq_Nil_conv)
  with Nil \<open>0 < limit\<close> have "for_each_step limit c Start s
      = Some (s\<lparr> waiting := xs, in_flight := in_flight s @ [x] \<rparr>)"
    by simp
  then show ?thesis by blast
next
  case (Cons y ys)
  then have "for_each_step limit c (Finish 0) s \<noteq> None" by simp
  then show ?thesis by blast
qed

lemma for_each_run_append:
  "for_each_run limit c (es @ es') s
     = (case for_each_run limit c es s of None \<Rightarrow> None | Some s' \<Rightarrow> for_each_run limit c es' s')"
  by (induction es arbitrary: s) (auto split: option.splits)

lemma for_each_run_invariant:
  "for_each_run limit c es s = Some s' \<Longrightarrow>
     (length (in_flight s) \<le> limit \<longrightarrow> length (in_flight s') \<le> limit)
     \<and> mset (waiting s') + mset (in_flight s') + mset (map fst (finished s'))
        = mset (waiting s) + mset (in_flight s) + mset (map fst (finished s))
     \<and> length es + 2 * length (waiting s') + length (in_flight s')
        = 2 * length (waiting s) + length (in_flight s)
     \<and> ((\<forall>xr \<in> set (finished s). snd xr = c (fst xr)) \<longrightarrow>
          (\<forall>xr \<in> set (finished s'). snd xr = c (fst xr)))"
proof (induction es arbitrary: s)
  case Nil
  then show ?case by simp
next
  case (Cons e es)
  from Cons.prems obtain s1 where
    step: "for_each_step limit c e s = Some s1" and run: "for_each_run limit c es s1 = Some s'"
    by (auto split: option.splits)
  note ih = Cons.IH [OF run]
  show ?case
  proof (intro conjI impI)
    assume "length (in_flight s) \<le> limit"
    with step have "length (in_flight s1) \<le> limit" by (rule for_each_step_in_flight)
    with ih show "length (in_flight s') \<le> limit" by simp
  next
    from ih for_each_step_elements [OF step]
    show "mset (waiting s') + mset (in_flight s') + mset (map fst (finished s'))
        = mset (waiting s) + mset (in_flight s) + mset (map fst (finished s))"
      by simp
  next
    from ih for_each_step_measure [OF step]
    show "length (e # es) + 2 * length (waiting s') + length (in_flight s')
        = 2 * length (waiting s) + length (in_flight s)"
      by simp
  next
    assume "\<forall>xr \<in> set (finished s). snd xr = c (fst xr)"
    with step have "\<forall>xr \<in> set (finished s1). snd xr = c (fst xr)"
      by (rule for_each_step_outcomes)
    with ih show "\<forall>xr \<in> set (finished s'). snd xr = c (fst xr)" by simp
  qed
qed

lemma for_each_run_completes:
  "0 < limit \<Longrightarrow> 2 * length (waiting s) + length (in_flight s) = n \<Longrightarrow>
     \<exists>es s'. for_each_run limit c es s = Some s' \<and> completed s'"
proof (induction n arbitrary: s)
  case 0
  then have "completed s" by (simp add: completed_def)
  then have "for_each_run limit c [] s = Some s \<and> completed s" by simp
  then show ?case by blast
next
  case (Suc n)
  then have "\<not> completed s" by (auto simp: completed_def)
  with Suc.prems obtain e s1 where step: "for_each_step limit c e s = Some s1"
    using for_each_progress by blast
  from for_each_step_measure [OF step] Suc.prems
  have "2 * length (waiting s1) + length (in_flight s1) = n" by simp
  from Suc.IH [OF Suc.prems(1) this] obtain es s' where
    "for_each_run limit c es s1 = Some s'" "completed s'" by blast
  with step have "for_each_run limit c (e # es) s = Some s' \<and> completed s'" by simp
  then show ?case by blast
qed

lemma for_each_run_take:
  "for_each_run limit c es s = Some s' \<Longrightarrow> \<exists>s1. for_each_run limit c (take n es) s = Some s1"
proof -
  assume "for_each_run limit c es s = Some s'"
  then have "for_each_run limit c (take n es @ drop n es) s = Some s'" by simp
  then show ?thesis
    unfolding for_each_run_append by (auto split: option.splits)
qed


lemma fetch_and_set_async_eq:
  "fetch_and_set_async keys fetch_one = fetch_and_set_function keys fetch_one"
  by (intro ext) (simp add: fetch_and_set_async_def fetch_and_set_function_def)

lemma fetch_for_each_run:
  "fetch gnt keys fetch_one ov vop nt limit s schedule
     = for_each_run limit (\<lambda>(url, detail). fetch_and_set_function keys fetch_one url detail) schedule
         (for_each_start (iter_instances gnt s ov vop nt))"
  by (simp add: fetch_def for_each_def fetch_and_set_async_eq)

text \<open>
  C1. A fetch pass over the \<open>M\<close> instances the iterator yields, with limit \<open>N\<close>: after
  every prefix of a run at most \<open>N\<close> invocations are in flight; every instance is waiting,
  in flight or finished, never in two stages and never twice; a run that has reached a state
  has taken as many steps as the starts and ends that state accounts for, so no run has
  more than \<open>2 * M\<close> steps; each finished invocation is recorded with its outcome,
  a raised exception included, and the others go on; when the pass is complete the
  finished invocations are the \<open>M\<close> instances, each once; and with a positive limit every
  run can be continued to a complete pass.
\<close>

theorem fetch_bounded_concurrency:
  assumes run: "fetch gnt keys fetch_one only_valid valid_or_private network_type limit s schedule
      = Some st"
  shows "(\<forall>n \<le> length schedule. \<exists>st'.
            fetch gnt keys fetch_one only_valid valid_or_private network_type limit s (take n schedule)
              = Some st'
            \<and> length (in_flight st') \<le> limit)
    \<and> mset (waiting st) + mset (in_flight st) + mset (map fst (finished st))
        = mset (iter_instances gnt s only_valid valid_or_private network_type)
    \<and> length schedule + 2 * length (waiting st) + length (in_flight st)
        = 2 * length (iter_instances gnt s only_valid valid_or_private network_type)
    \<and> (\<forall>xr \<in> set (finished st).
          snd xr = fetch_and_set_function keys fetch_one (fst (fst xr)) (snd (fst xr)))
    \<and> (completed st \<longrightarrow>
          mset (map fst (finished st))
            = mset (iter_instances gnt s only_valid valid_or_private network_type))
    \<and> (0 < limit \<longrightarrow>
          (\<exists>es st'.
             fetch gnt keys fetch_one only_valid valid_or_private network_type limit s (schedule @ es)
               = Some st'
             \<and> completed st'))"
proof -
  let ?c = "\<lambda>(url, detail). fetch_and_set_function keys fetch_one url detail"
  let ?xs = "iter_instances gnt s only_valid valid_or_private network_type"
  let ?s0 = "for_each_start ?xs :: (string \<times> pydict, pydict outcome) for_each_state"
  from run have r: "for_each_run limit ?c schedule ?s0 = Some st"
    by (simp add: fetch_for_each_run)
  have start: "length (in_flight ?s0) \<le> limit" "waiting ?s0 = ?xs" "in_flight ?s0 = []"
    "finished ?s0 = []"
    by (simp_all add: for_each_start_def)
  note inv = for_each_run_invariant [OF r]
  have steps: "\<forall>n \<le> length schedule. \<exists>st'.
            fetch gnt keys fetch_one only_valid valid_or_private network_type limit s (take n schedule)
              = Some st'
            \<and> length (in_flight st') \<le> limit"
  proof (intro allI impI)
    fix n
    from for_each_run_take [OF r, of n] obtain s1 where
      s1: "for_each_run limit ?c (take n schedule) ?s0 = Some s1" by blast
    from for_each_run_invariant [OF s1] start(1) have "length (in_flight s1) \<le> limit" by blast
    with s1 show "\<exists>st'.
            fetch gnt keys fetch_one only_valid valid_or_private network_type limit s (take n schedule)
              = Some st'
            \<and> length (in_flight st') \<le> limit"
      by (simp add: fetch_for_each_run)
  qed
  have elements: "mset (waiting st) + mset (in_flight st) + mset (map fst (finished st)) = mset ?xs"
    using inv start by simp
  have count: "length schedule + 2 * length (waiting st) + length (in_flight st) = 2 * length ?xs"
    using inv start by simp
  have outcomes: "\<forall>xr \<in> set (finished st).
          snd xr = fetch_and_set_function keys fetch_one (fst (fst xr)) (snd (fst xr))"
    using inv start by (simp add: case_prod_beta)
  have fin: "completed st \<longrightarrow> mset (map fst (finished st)) = mset ?xs"
    using elements by (auto simp: completed_def)
  have extend: "0 < limit \<longrightarrow>
          (\<exists>es st'.
             fetch gnt keys fetch_one only_valid valid_or_private network_type limit s (schedule @ es)
               = Some st'
             \<and> completed st')"
  proof
    assume "0 < limit"
    from for_each_run_completes [OF this refl, where s = st and c = ?c] obtain es st' where
      "for_each_run limit ?c es st = Some st'" "completed st'" by blast
    with r have "for_each_run limit ?c (schedule @ es) ?s0 = Some st' \<and> completed st'"
      by (simp add: for_each_run_append)
    then show "\<exists>es st'.
             fetch gnt keys fetch_one only_valid valid_or_private network_type limit s (schedule @ es)
               = Some st'
             \<and> completed st'"
      unfolding fetch_for_each_run by blast
  qed
  from steps elements count outcomes fin extend show ?thesis by blast
qed


theorem fetch_bounded_concurrency_witness:
  "fetch (\<lambda>u. True) [''hash''] (PlainFunction (\<lambda>url. if url = ''u2'' then Inl (ProbeError ''timeout'') else Inr (JStr ''sha''))) False True EnumClass 2
        (init_result 0 False\<lparr> instances := [(''u1'', [(''version'', JStr ''1.0'')]),
                                            (''u2'', [(''version'', JStr ''1.1'')]),
                                            (''u3'', [(''version'', JStr ''1.2'')])] \<rparr>)
        [Start, Start, Finish 1, Start, Finish 0, Finish 0]
     = Some \<lparr> waiting = [], in_flight = [],
              finished = [((''u2'', [(''version'', JStr ''1.1'')]),
                             Raised (ProbeError ''timeout'') [(''version'', JStr ''1.1'')]),
                          ((''u1'', [(''version'', JStr ''1.0'')]),
                             Returned [(''version'', JStr ''1.0''), (''hash'', JStr ''sha'')]),
                          ((''u3'', [(''version'', JStr ''1.2'')]),
                             Returned [(''version'', JStr ''1.2''), (''hash'', JStr ''sha'')])] \<rparr>
   \<and> (0::nat) < 2
   \<and> (2::nat) \<le> length (iter_instances (\<lambda>u. True) (init_result 0 False\<lparr> instances := [(''u1'', [(''version'', JStr ''1.0'')]),
                                            (''u2'', [(''version'', JStr ''1.1'')]),
                                            (''u3'', [(''version'', JStr ''1.2'')])] \<rparr>) False True EnumClass)
   \<and> length (in_flight \<lparr> waiting = [], in_flight = [],
              finished = [((''u2'', [(''version'', JStr ''1.1'')]),
                             Raised (ProbeError ''timeout'') [(''version'', JStr ''1.1'')]),
                          ((''u1'', [(''version'', JStr ''1.0'')]),
                             Returned [(''version'', JStr ''1.0''), (''hash'', JStr ''sha'')]),
                          ((''u3'', [(''version'', JStr ''1.2'')]),
                             Returned [(''version'', JStr ''1.2''), (''hash'', JStr ''sha'')])] \<rparr>) \<le> 2
   \<and> completed \<lparr> waiting = [], in_flight = [],
              finished = [((''u2'', [(''version'', JStr ''1.1'')]),
                             Raised (ProbeError ''timeout'') [(''version'', JStr ''1.1'')]),
                          ((''u1'', [(''version'', JStr ''1.0'')]),
                             Returned [(''version'', JStr ''1.0''), (''hash'', JStr ''sha'')]),
                          ((''u3'', [(''version'', JStr ''1.2'')]),
                             Returned [(''version'', JStr ''1.2''), (''hash'', JStr ''sha'')])] \<rparr>
   \<and> mset (map fst (finished \<lparr> waiting = [], in_flight = [],
              finished = [((''u2'', [(''version'', JStr ''1.1'')]),
                             Raised (ProbeError ''timeout'') [(''version'', JStr ''1.1'')]),
                          ((''u1'', [(''version'', JStr ''1.0'')]),
                             Returned [(''version'', JStr ''1.0''), (''hash'', JStr ''sha'')]),
                          ((''u3'', [(''version'', JStr ''1.2'')]),
                             Returned [(''version'', JStr ''1.2''), (''hash'', JStr ''sha'')])] \<rparr>))
       = mset (iter_instances (\<lambda>u. True) (init_result 0 False\<lparr> instances := [(''u1'', [(''version'', JStr ''1.0'')]),
                                            (''u2'', [(''version'', JStr ''1.1'')]),
                                            (''u3'', [(''version'', JStr ''1.2'')])] \<rparr>) False True EnumClass)"
proof -
  have run: "fetch (\<lambda>u. True) [''hash''] (PlainFunction (\<lambda>url. if url = ''u2'' then Inl (ProbeError ''timeout'') else Inr (JStr ''sha''))) False True EnumClass 2
        (init_result 0 False\<lparr> instances := [(''u1'', [(''version'', JStr ''1.0'')]),
                                            (''u2'', [(''version'', JStr ''1.1'')]),
                                            (''u3'', [(''version'', JStr ''1.2'')])] \<rparr>)
        [Start, Start, Finish 1, Start, Finish 0, Finish 0]
     = Some \<lparr> waiting = [], in_flight = [],
              finished = [((''u2'', [(''version'', JStr ''1.1'')]),
                             Raised (ProbeError ''timeout'') [(''version'', JStr ''1.1'')]),
                          ((''u1'', [(''version'', JStr ''1.0'')]),
                             Returned [(''version'', JStr ''1.0''), (''hash'', JStr ''sha'')]),
                          ((''u3'', [(''version'', JStr ''1.2'')]),
                             Returned [(''version'', JStr ''1.2''), (''hash'', JStr ''sha'')])] \<rparr>"
    by (simp add: fetch_def for_each_def for_each_start_def iter_instances_def yields_def
          is_valid_instance_def dict_has_def init_result_def fetch_and_set_function_def)
  from fetch_bounded_concurrency [OF run] run show ?thesis
    by (simp add: completed_def iter_instances_def yields_def is_valid_instance_def dict_has_def
          init_result_def)
qed

end
